theory Spec2Isabelle
  imports Complex_Main
begin

section \<open>PulseRadar: endpoint trust scores and evaluator reputation\<close>

text \<open>
  A shallow embedding of the scoring code of PulseRadar: the testing engine's two
  aggregation functions (\<^verbatim>\<open>calculateUptime\<close>, \<^verbatim>\<open>calculateAvgResponseTime\<close>), the trust
  score calculator, and the two request handlers \<^verbatim>\<open>handleAgentPrediction\<close> and
  \<^verbatim>\<open>handleAgentDiscrepancy\<close> of \<^verbatim>\<open>index.ts\<close>.

  Conventions.
  \<^item> A JavaScript \<^verbatim>\<open>number\<close> is an exact \<^typ>\<open>real\<close>: rounding of IEEE doubles, NaN and
    the infinities are not part of the model. Integer columns that only count
    (\<^verbatim>\<open>total_predictions\<close>) are \<^typ>\<open>nat\<close>, other integer columns and timestamps are
    \<^typ>\<open>int\<close>.
  \<^item> An optional field of a stored row (SQL \<^verbatim>\<open>NULL\<close>) is an \<^typ>\<open>'a option\<close>. A field
    of a request body that a handler tests or binds without a default is an \<open>'a js\<close>:
    absent (\<^verbatim>\<open>undefined\<close>), JSON \<^verbatim>\<open>null\<close>, or a value. JavaScript truthiness is written
    out.
  \<^item> \<^verbatim>\<open>Date.now()\<close> is a parameter \<open>date_now\<close> (milliseconds); one call of a function
    reads one clock value.
  \<^item> The D1 database is a record of tables, each a list of rows in insertion order; a
    handler takes the database and returns its response with the new database. An
    \<^verbatim>\<open>INSERT\<close> checks the \<^verbatim>\<open>NOT NULL\<close> and \<^verbatim>\<open>FOREIGN KEY\<close> constraints that the migrations
    declare for its table; when one fails the statement throws, the handler's
    \<^verbatim>\<open>catch\<close> answers 500 and the database is as it was. Binding \<^verbatim>\<open>undefined\<close> throws as
    well and takes the same branch, so \<^verbatim>\<open>undefined\<close> and \<^verbatim>\<open>null\<close> are both bound as
    \<^verbatim>\<open>NULL\<close>. The text of an error message stands for the driver's.
\<close>

subsection \<open>JavaScript primitives\<close>

definition js_round :: "real \<Rightarrow> real" where
  \<comment> \<open>\<^verbatim>\<open>Math.round\<close>: the nearest integer, halves towards plus infinity.\<close>
  "js_round x = of_int \<lfloor>x + 1 / 2\<rfloor>"

definition js_floor :: "real \<Rightarrow> int" where
  "js_floor x = \<lfloor>x\<rfloor>"

fun truthy_number :: "real option \<Rightarrow> bool" where
  "truthy_number None = False"
| "truthy_number (Some x) = (x \<noteq> 0)"

fun truthy_string :: "string option \<Rightarrow> bool" where
  "truthy_string None = False"
| "truthy_string (Some s) = (s \<noteq> [])"

fun number_or_zero :: "real option \<Rightarrow> real" where
  \<comment> \<open>\<^verbatim>\<open>v || 0\<close> on an optional number.\<close>
  "number_or_zero None = 0"
| "number_or_zero (Some x) = x"

subsection \<open>Test records (types.ts, lib/testing.ts)\<close>

record EndpointTest =
  endpoint_id :: int
  test_timestamp :: int
  status_code :: "int option"
  response_time_ms :: "real option"
  is_successful :: bool
  error_message :: "string option"
  response_sample :: "string option"

definition calculateUptime :: "EndpointTest list \<Rightarrow> real" where
  "calculateUptime tests =
     (if length tests = 0 then 0
      else let successful = length (filter is_successful tests)
           in (real successful / real (length tests)) * 100)"

definition calculateAvgResponseTime :: "EndpointTest list \<Rightarrow> real" where
  "calculateAvgResponseTime tests =
     (let successfulTests =
            filter (\<lambda>t. is_successful t \<and> truthy_number (response_time_ms t)) tests
      in if length successfulTests = 0 then 0
         else let total = foldl (\<lambda>sum t. sum + number_or_zero (response_time_ms t)) 0 successfulTests
              in total / real (length successfulTests))"

subsection \<open>Trust score calculator (lib/trust-score.ts)\<close>

definition calculateUptimeScore :: "real \<Rightarrow> real" where
  "calculateUptimeScore uptimePercent =
     (if uptimePercent \<ge> 99 then 95 + (uptimePercent - 99) * 5
      else if uptimePercent \<ge> 95 then 85 + ((uptimePercent - 95) / 4) * 10
      else if uptimePercent \<ge> 90 then 70 + ((uptimePercent - 90) / 5) * 15
      else if uptimePercent \<ge> 80 then 50 + ((uptimePercent - 80) / 10) * 20
      else (uptimePercent / 80) * 50)"

definition calculateSpeedScore :: "real \<Rightarrow> real" where
  "calculateSpeedScore avgResponseTimeMs =
     (if avgResponseTimeMs < 200 then 95 + ((200 - avgResponseTimeMs) / 200) * 5
      else if avgResponseTimeMs < 500 then 85 + ((500 - avgResponseTimeMs) / 300) * 10
      else if avgResponseTimeMs < 1000 then 70 + ((1000 - avgResponseTimeMs) / 500) * 15
      else if avgResponseTimeMs < 2000 then 50 + ((2000 - avgResponseTimeMs) / 1000) * 20
      else max 0 (50 - ((avgResponseTimeMs - 2000) / 2000) * 50))"

definition calculateAccuracyScore :: "EndpointTest list \<Rightarrow> real" where
  "calculateAccuracyScore tests =
     (if length tests = 0 then 0
      else let validResponses =
                 length (filter (\<lambda>t. is_successful t \<and> truthy_string (response_sample t)) tests);
               accuracyPercent = (real validResponses / real (length tests)) * 100
           in if accuracyPercent \<ge> 95 then 90 + ((accuracyPercent - 95) / 5) * 10
              else if accuracyPercent \<ge> 85 then 75 + ((accuracyPercent - 85) / 10) * 15
              else if accuracyPercent \<ge> 70 then 55 + ((accuracyPercent - 70) / 15) * 20
              else (accuracyPercent / 70) * 55)"

definition calculateAgeScore :: "int \<Rightarrow> int \<Rightarrow> real" where
  \<comment> \<open>The first argument is the value of \<^verbatim>\<open>Date.now()\<close> read by the function.\<close>
  "calculateAgeScore date_now firstTestedTimestamp =
     (let now = js_floor (real_of_int date_now / 1000);
          ageInSeconds = now - firstTestedTimestamp;
          ageInDays = real_of_int ageInSeconds / (24 * 60 * 60)
      in if ageInDays \<ge> 30 then 95 + min 5 ((ageInDays - 30) / 30)
         else if ageInDays \<ge> 14 then 80 + ((ageInDays - 14) / 16) * 15
         else if ageInDays \<ge> 7 then 60 + ((ageInDays - 7) / 7) * 20
         else if ageInDays \<ge> 3 then 40 + ((ageInDays - 3) / 4) * 20
         else (ageInDays / 3) * 40)"

definition calculateOverallScore :: "real \<Rightarrow> real \<Rightarrow> real \<Rightarrow> real \<Rightarrow> real" where
  "calculateOverallScore uptimeScore speedScore accuracyScore ageScore =
     (let score = uptimeScore * 0.35 + speedScore * 0.25 + accuracyScore * 0.30 + ageScore * 0.10
      in js_round (score * 10) / 10)"

definition calculateGrade :: "real \<Rightarrow> string" where
  "calculateGrade score =
     (if score \<ge> 98 then ''A+''
      else if score \<ge> 93 then ''A''
      else if score \<ge> 90 then ''A-''
      else if score \<ge> 87 then ''B+''
      else if score \<ge> 83 then ''B''
      else if score \<ge> 80 then ''B-''
      else if score \<ge> 77 then ''C+''
      else if score \<ge> 73 then ''C''
      else if score \<ge> 70 then ''C-''
      else if score \<ge> 60 then ''D''
      else ''F'')"

datatype Recommendation = TRUSTED | CAUTION | AVOID

definition calculateRecommendation :: "real \<Rightarrow> Recommendation" where
  "calculateRecommendation score =
     (if score \<ge> 85 then TRUSTED
      else if score \<ge> 65 then CAUTION
      else AVOID)"

record TrustScore =
  ts_endpoint_id :: int
  uptime_score :: real
  speed_score :: real
  accuracy_score :: real
  age_score :: real
  overall_score :: real
  grade :: string
  recommendation :: Recommendation
  total_tests :: nat
  successful_tests :: nat
  failed_tests :: nat
  avg_response_time_ms :: real
  first_tested_at :: "int option"
  last_calculated_at :: int

definition calculateTrustScoreForEndpoint :: "int \<Rightarrow> EndpointTest list \<Rightarrow> int \<Rightarrow> TrustScore" where
  \<comment> \<open>\<open>endpoint\<close> is \<^verbatim>\<open>endpoint.id\<close>; \<open>tests\<close> is what \<^verbatim>\<open>getEndpointTests(env, endpoint.id, 100)\<close>
      returned (newest first); \<open>date_now\<close> is \<^verbatim>\<open>Date.now()\<close>.\<close>
  "calculateTrustScoreForEndpoint endpoint tests date_now =
     (if length tests = 0 then
        \<lparr> ts_endpoint_id = endpoint, uptime_score = 0, speed_score = 0, accuracy_score = 0,
          age_score = 0, overall_score = 0, grade = ''F'', recommendation = AVOID,
          total_tests = 0, successful_tests = 0, failed_tests = 0, avg_response_time_ms = 0,
          first_tested_at = None,
          last_calculated_at = js_floor (real_of_int date_now / 1000) \<rparr>
      else
        let uptimePercent = calculateUptime tests;
            avgResponseTime = calculateAvgResponseTime tests;
            firstTest = last tests;
            uptimeScore = calculateUptimeScore uptimePercent;
            speedScore = calculateSpeedScore avgResponseTime;
            accuracyScore = calculateAccuracyScore tests;
            ageScore = calculateAgeScore date_now (test_timestamp firstTest);
            overallScore = calculateOverallScore uptimeScore speedScore accuracyScore ageScore;
            successfulTests = length (filter is_successful tests)
        in \<lparr> ts_endpoint_id = endpoint,
             uptime_score = js_round (uptimeScore * 10) / 10,
             speed_score = js_round (speedScore * 10) / 10,
             accuracy_score = js_round (accuracyScore * 10) / 10,
             age_score = js_round (ageScore * 10) / 10,
             overall_score = overallScore,
             grade = calculateGrade overallScore,
             recommendation = calculateRecommendation overallScore,
             total_tests = length tests,
             successful_tests = successfulTests,
             failed_tests = length tests - successfulTests,
             avg_response_time_ms = js_round avgResponseTime,
             first_tested_at = Some (test_timestamp firstTest),
             last_calculated_at = js_floor (real_of_int date_now / 1000) \<rparr>)"

subsection \<open>Prediction and reputation tables (types.ts, migrations 0002, 0004 and 0005)\<close>

text \<open>
  Request bodies keep the field names of \<^verbatim>\<open>types.ts\<close>; the four fields of
  \<^verbatim>\<open>EvaluationPredictionRequest\<close> that share a name with a field of
  \<^verbatim>\<open>PredictionDiscrepancyRequest\<close> carry the prefix \<open>prediction_\<close>. Columns of a table
  carry a prefix naming the table: \<open>ep_\<close> (\<^verbatim>\<open>evaluation_predictions\<close>), \<open>pd_\<close>
  (\<^verbatim>\<open>prediction_discrepancies\<close>), \<open>ev_\<close> (\<^verbatim>\<open>evaluators\<close>) and \<open>rh_\<close>
  (\<^verbatim>\<open>evaluator_reputation_history\<close>). Of \<^verbatim>\<open>agent_evaluations\<close> only the ids are kept:
  the handlers reach that table through foreign keys alone.

  Every field of a prediction request is an \<open>'a js\<close>. Of a discrepancy request the four
  fields that the handler tests are; the others are present, as \<^verbatim>\<open>types.ts\<close> declares them.
\<close>

datatype 'a js = Undefined | Null | Val 'a

datatype AccuracyCategory = Excellent | Good | Fair | Poor

datatype Json = JString string | JEmptyArray

fun sql_value :: "'a js \<Rightarrow> 'a option" where
  \<comment> \<open>What \<^verbatim>\<open>bind\<close> hands to a \<^verbatim>\<open>NOT NULL\<close> column.\<close>
  "sql_value Undefined = None"
| "sql_value Null = None"
| "sql_value (Val v) = Some v"

fun falsy_string :: "string js \<Rightarrow> bool" where
  \<comment> \<open>\<^verbatim>\<open>!v\<close> on a string.\<close>
  "falsy_string Undefined = True"
| "falsy_string Null = True"
| "falsy_string (Val s) = (s = [])"

fun falsy_number :: "real js \<Rightarrow> bool" where
  \<comment> \<open>\<^verbatim>\<open>!v\<close> on a number.\<close>
  "falsy_number Undefined = True"
| "falsy_number Null = True"
| "falsy_number (Val x) = (x = 0)"

fun string_or_null :: "string js \<Rightarrow> string option" where
  \<comment> \<open>\<^verbatim>\<open>v || null\<close> on a string.\<close>
  "string_or_null (Val s) = (if s = [] then None else Some s)"
| "string_or_null _ = None"

fun id_or_null :: "nat js \<Rightarrow> nat option" where
  \<comment> \<open>\<^verbatim>\<open>v || null\<close> on a row id.\<close>
  "id_or_null (Val i) = (if i = 0 then None else Some i)"
| "id_or_null _ = None"

fun js_number_or_zero :: "real js \<Rightarrow> real" where
  \<comment> \<open>\<^verbatim>\<open>v || 0\<close> on a number.\<close>
  "js_number_or_zero (Val x) = x"
| "js_number_or_zero _ = 0"

fun string_or :: "string js \<Rightarrow> string \<Rightarrow> string" where
  \<comment> \<open>\<^verbatim>\<open>v || d\<close> on a string.\<close>
  "string_or (Val s) d = (if s = [] then d else s)"
| "string_or _ d = d"

fun features_json :: "string js \<Rightarrow> Json" where
  \<comment> \<open>The value \<^verbatim>\<open>body.features_analyzed || []\<close> that is handed to \<^verbatim>\<open>JSON.stringify\<close>.\<close>
  "features_json (Val s) = (if s = [] then JEmptyArray else JString s)"
| "features_json _ = JEmptyArray"

fun foreign_key_holds :: "nat option \<Rightarrow> nat list \<Rightarrow> bool" where
  \<comment> \<open>A \<^verbatim>\<open>NULL\<close> reference is allowed; any other must be the id of a row.\<close>
  "foreign_key_holds None ids = True"
| "foreign_key_holds (Some i) ids = (i \<in> set ids)"

record EvaluationPredictionRequest =
  prediction_evaluator_url :: "string js"
  evaluator_name :: "string js"
  prediction_target_url :: "string js"
  target_name :: "string js"
  prediction_timestamp :: "int js"
  prediction_predicted_score :: "real js"
  prediction_predicted_grade :: "string js"
  confidence_level :: "real js"
  prediction_basis :: "string js"
  historical_data_points :: "real js"
  similar_agents_analyzed :: "real js"
  features_analyzed :: "string js"
  actual_evaluation_id :: "nat js"

record PredictionRow =
  ep_id :: nat
  ep_evaluator_url :: "string option"
  ep_evaluator_name :: "string option"
  ep_target_url :: "string option"
  ep_target_name :: "string option"
  ep_prediction_timestamp :: "int option"
  ep_predicted_score :: "real option"
  ep_predicted_grade :: "string option"
  ep_confidence_level :: "real option"
  ep_prediction_basis :: "string option"
  ep_historical_data_points :: real
  ep_similar_agents_analyzed :: real
  ep_features_analyzed :: Json
  ep_actual_evaluation_id :: "nat option"

record PredictionDiscrepancyRequest =
  evaluator_url :: "string js"
  target_url :: "string js"
  analysis_timestamp :: int
  predicted_score :: "real js"
  actual_score :: "real js"
  score_difference :: real
  absolute_error :: real
  predicted_grade :: string
  actual_grade :: string
  grade_match :: bool
  confidence_was :: real
  prediction_basis_was :: string
  test_discrepancies :: "string js"
  accuracy_category :: AccuracyCategory
  overestimated :: bool

record DiscrepancyRow =
  pd_id :: nat
  pd_prediction_id :: "nat option"
  pd_evaluation_id :: "nat option"
  pd_evaluator_url :: "string option"
  pd_target_url :: "string option"
  pd_analysis_timestamp :: int
  pd_predicted_score :: "real option"
  pd_actual_score :: "real option"
  pd_score_difference :: real
  pd_absolute_error :: real
  pd_predicted_grade :: string
  pd_actual_grade :: string
  pd_grade_match :: nat
  pd_confidence_was :: real
  pd_prediction_basis_was :: string
  pd_test_discrepancies :: string
  pd_accuracy_category :: AccuracyCategory
  pd_overestimated :: nat

record EvaluatorRow =
  ev_id :: nat
  ev_evaluator_url :: string
  ev_trust_score :: int
  ev_prediction_accuracy_rate :: real
  ev_calibration_score :: real
  ev_consistency_score :: real
  ev_total_evaluations :: nat
  ev_total_predictions :: nat
  ev_avg_absolute_error :: real
  ev_grade_accuracy_rate :: real

record ReputationSnapshot =
  rh_id :: nat
  rh_evaluator_id :: nat
  rh_snapshot_timestamp :: int
  rh_trust_score :: int
  rh_change_reason :: "string option"
  rh_score_change :: "int option"

record DB =
  agent_evaluations :: "nat list"
  evaluation_predictions :: "PredictionRow list"
  prediction_discrepancies :: "DiscrepancyRow list"
  evaluators :: "EvaluatorRow list"
  evaluator_reputation_history :: "ReputationSnapshot list"

record LearningInsights =
  evaluator_performance :: string
  suggested_adjustments :: "string list"

datatype ResponseBody =
    ErrorBody string
  | PredictionStored string nat
  | DiscrepancyStored string nat LearningInsights

datatype Response = Response (status: nat) (payload: ResponseBody)

definition last_row_id :: "nat list \<Rightarrow> nat" where
  \<comment> \<open>The id an \<^verbatim>\<open>AUTOINCREMENT\<close> key gives the next row, from the ids in the table.\<close>
  "last_row_id ids = Suc (fold max ids 0)"

subsection \<open>handleAgentPrediction (index.ts)\<close>

definition prediction_missing_required :: "EvaluationPredictionRequest \<Rightarrow> bool" where
  "prediction_missing_required body \<longleftrightarrow>
     falsy_string (prediction_evaluator_url body) \<or> falsy_string (prediction_target_url body)
     \<or> falsy_number (prediction_predicted_score body)
     \<or> falsy_string (prediction_predicted_grade body)"

definition prediction_row :: "EvaluationPredictionRequest \<Rightarrow> PredictionRow" where
  \<comment> \<open>The thirteen bound values; \<open>ep_id\<close> is given by the \<^verbatim>\<open>INSERT\<close>.\<close>
  "prediction_row body =
     \<lparr> ep_id = 0,
       ep_evaluator_url = sql_value (prediction_evaluator_url body),
       ep_evaluator_name = string_or_null (evaluator_name body),
       ep_target_url = sql_value (prediction_target_url body),
       ep_target_name = string_or_null (target_name body),
       ep_prediction_timestamp = sql_value (prediction_timestamp body),
       ep_predicted_score = sql_value (prediction_predicted_score body),
       ep_predicted_grade = sql_value (prediction_predicted_grade body),
       ep_confidence_level = sql_value (confidence_level body),
       ep_prediction_basis = sql_value (prediction_basis body),
       ep_historical_data_points = js_number_or_zero (historical_data_points body),
       ep_similar_agents_analyzed = js_number_or_zero (similar_agents_analyzed body),
       ep_features_analyzed = features_json (features_analyzed body),
       ep_actual_evaluation_id = id_or_null (actual_evaluation_id body) \<rparr>"

definition evaluation_predictions_accepts :: "PredictionRow \<Rightarrow> DB \<Rightarrow> bool" where
  \<comment> \<open>The constraints of \<^verbatim>\<open>evaluation_predictions\<close> (migration 0004): seven \<^verbatim>\<open>NOT NULL\<close>
      columns and the foreign key of \<^verbatim>\<open>actual_evaluation_id\<close>.\<close>
  "evaluation_predictions_accepts row db \<longleftrightarrow>
     ep_evaluator_url row \<noteq> None \<and> ep_target_url row \<noteq> None
     \<and> ep_prediction_timestamp row \<noteq> None \<and> ep_predicted_score row \<noteq> None
     \<and> ep_predicted_grade row \<noteq> None \<and> ep_confidence_level row \<noteq> None
     \<and> ep_prediction_basis row \<noteq> None
     \<and> foreign_key_holds (ep_actual_evaluation_id row) (agent_evaluations db)"

definition insert_evaluation_prediction :: "PredictionRow \<Rightarrow> DB \<Rightarrow> string + nat \<times> DB" where
  \<comment> \<open>\<^verbatim>\<open>INSERT INTO evaluation_predictions ... .run()\<close>: the error thrown, or
      \<^verbatim>\<open>meta.last_row_id\<close> with the new database.\<close>
  "insert_evaluation_prediction row db =
     (if evaluation_predictions_accepts row db then
        let new_id = last_row_id (map ep_id (evaluation_predictions db))
        in Inr (new_id,
                db \<lparr> evaluation_predictions :=
                       evaluation_predictions db @ [row \<lparr> ep_id := new_id \<rparr>] \<rparr>)
      else Inl ''constraint failed: evaluation_predictions'')"

definition handleAgentPrediction ::
  "string + EvaluationPredictionRequest \<Rightarrow> DB \<Rightarrow> Response \<times> DB" where
  \<comment> \<open>The request is the outcome of \<^verbatim>\<open>request.json()\<close>: \<open>Inl message\<close> when it throws
      (the \<^verbatim>\<open>catch\<close> branch), \<open>Inr body\<close> otherwise.\<close>
  "handleAgentPrediction request db =
     (case request of
        Inl message \<Rightarrow> (Response 500 (ErrorBody message), db)
      | Inr body \<Rightarrow>
          if prediction_missing_required body then
            (Response 400 (ErrorBody
               ''Missing required fields: evaluator_url, target_url, predicted_score, predicted_grade''),
             db)
          else
            (case insert_evaluation_prediction (prediction_row body) db of
               Inl message \<Rightarrow> (Response 500 (ErrorBody message), db)
             | Inr (prediction_id, db') \<Rightarrow>
                 (Response 200 (PredictionStored ''Prediction received and stored'' prediction_id),
                  db')))"

subsection \<open>handleAgentDiscrepancy (index.ts)\<close>

definition discrepancy_missing_required :: "PredictionDiscrepancyRequest \<Rightarrow> bool" where
  "discrepancy_missing_required body \<longleftrightarrow>
     falsy_string (evaluator_url body) \<or> falsy_string (target_url body)
     \<or> predicted_score body = Undefined \<or> actual_score body = Undefined"

definition discrepancy_row :: "PredictionDiscrepancyRequest \<Rightarrow> DiscrepancyRow" where
  \<comment> \<open>The fifteen bound values; \<open>pd_id\<close> is given by the \<^verbatim>\<open>INSERT\<close>. The statement names
      neither \<^verbatim>\<open>prediction_id\<close> nor \<^verbatim>\<open>evaluation_id\<close>, and the columns have no default:
      they are \<^verbatim>\<open>NULL\<close>.\<close>
  "discrepancy_row body =
     \<lparr> pd_id = 0,
       pd_prediction_id = None,
       pd_evaluation_id = None,
       pd_evaluator_url = sql_value (evaluator_url body),
       pd_target_url = sql_value (target_url body),
       pd_analysis_timestamp = analysis_timestamp body,
       pd_predicted_score = sql_value (predicted_score body),
       pd_actual_score = sql_value (actual_score body),
       pd_score_difference = score_difference body,
       pd_absolute_error = absolute_error body,
       pd_predicted_grade = predicted_grade body,
       pd_actual_grade = actual_grade body,
       pd_grade_match = (if grade_match body then 1 else 0),
       pd_confidence_was = confidence_was body,
       pd_prediction_basis_was = prediction_basis_was body,
       pd_test_discrepancies = string_or (test_discrepancies body) ''[]'',
       pd_accuracy_category = accuracy_category body,
       pd_overestimated = (if overestimated body then 1 else 0) \<rparr>"

definition prediction_discrepancies_accepts :: "DiscrepancyRow \<Rightarrow> DB \<Rightarrow> bool" where
  \<comment> \<open>The constraints of \<^verbatim>\<open>prediction_discrepancies\<close> (migration 0004) on the optional
      columns of a row: \<^verbatim>\<open>NOT NULL\<close>, and the foreign keys of \<^verbatim>\<open>prediction_id\<close> and
      \<^verbatim>\<open>evaluation_id\<close>.\<close>
  "prediction_discrepancies_accepts row db \<longleftrightarrow>
     pd_prediction_id row \<noteq> None \<and> pd_evaluation_id row \<noteq> None
     \<and> pd_evaluator_url row \<noteq> None \<and> pd_target_url row \<noteq> None
     \<and> pd_predicted_score row \<noteq> None \<and> pd_actual_score row \<noteq> None
     \<and> foreign_key_holds (pd_prediction_id row) (map ep_id (evaluation_predictions db))
     \<and> foreign_key_holds (pd_evaluation_id row) (agent_evaluations db)"

definition insert_prediction_discrepancy :: "DiscrepancyRow \<Rightarrow> DB \<Rightarrow> string + nat \<times> DB" where
  \<comment> \<open>\<^verbatim>\<open>INSERT INTO prediction_discrepancies ... .run()\<close>: the error thrown, or
      \<^verbatim>\<open>meta.last_row_id\<close> with the new database.\<close>
  "insert_prediction_discrepancy row db =
     (if prediction_discrepancies_accepts row db then
        let new_id = last_row_id (map pd_id (prediction_discrepancies db))
        in Inr (new_id,
                db \<lparr> prediction_discrepancies :=
                       prediction_discrepancies db @ [row \<lparr> pd_id := new_id \<rparr>] \<rparr>)
      else Inl ''constraint failed: prediction_discrepancies'')"

definition select_evaluator :: "string option \<Rightarrow> EvaluatorRow list \<Rightarrow> EvaluatorRow option" where
  \<comment> \<open>\<^verbatim>\<open>SELECT ... FROM evaluators WHERE evaluator_url = ?\<close> with \<^verbatim>\<open>.first()\<close>.\<close>
  "select_evaluator url rows = find (\<lambda>e. Some (ev_evaluator_url e) = url) rows"

definition update_evaluators ::
  "nat \<Rightarrow> real \<Rightarrow> real \<Rightarrow> real \<Rightarrow> nat \<Rightarrow> EvaluatorRow list \<Rightarrow> EvaluatorRow list" where
  \<comment> \<open>\<^verbatim>\<open>UPDATE evaluators SET total_predictions = ?, avg_absolute_error = ?,
      grade_accuracy_rate = ?, prediction_accuracy_rate = ? WHERE id = ?\<close>.\<close>
  "update_evaluators new_total avg_error grade_accuracy accuracy_rate row_id rows =
     map (\<lambda>e. if ev_id e = row_id
               then e \<lparr> ev_total_predictions := new_total,
                        ev_avg_absolute_error := avg_error,
                        ev_grade_accuracy_rate := grade_accuracy,
                        ev_prediction_accuracy_rate := accuracy_rate \<rparr>
               else e) rows"

definition update_prediction_accuracy ::
  "PredictionDiscrepancyRequest \<Rightarrow> EvaluatorRow list \<Rightarrow> EvaluatorRow list" where
  \<comment> \<open>The block "Update evaluator's prediction accuracy", which follows the \<^verbatim>\<open>INSERT\<close>.\<close>
  "update_prediction_accuracy body rows =
     (case select_evaluator (sql_value (evaluator_url body)) rows of
        None \<Rightarrow> rows
      | Some evaluator \<Rightarrow>
          let newTotalPredictions = ev_total_predictions evaluator + 1;
              newAvgError =
                (ev_avg_absolute_error evaluator * real (ev_total_predictions evaluator)
                 + absolute_error body) / real newTotalPredictions;
              gradeMatch = (if grade_match body then 1 else 0);
              newGradeAccuracy =
                (ev_grade_accuracy_rate evaluator * real (ev_total_predictions evaluator)
                 + gradeMatch) / real newTotalPredictions
          in update_evaluators newTotalPredictions newAvgError newGradeAccuracy
               (1.0 - (newAvgError / 100)) (ev_id evaluator) rows)"

definition learning_insights :: "AccuracyCategory \<Rightarrow> LearningInsights" where
  "learning_insights category =
     (if category = Excellent then
        \<lparr> evaluator_performance = ''Excellent prediction accuracy! Your model is well-calibrated.'',
          suggested_adjustments = [] \<rparr>
      else if category = Good then
        \<lparr> evaluator_performance =
            ''Good prediction accuracy. Minor adjustments may improve performance.'',
          suggested_adjustments =
            [''Consider adjusting test weights based on discrepancy patterns''] \<rparr>
      else if category = Fair then
        \<lparr> evaluator_performance =
            ''Fair prediction accuracy. Review prediction model for improvements.'',
          suggested_adjustments =
            [''Analyze which test categories show highest discrepancy'',
             ''Increase weight on consistently underestimated categories'',
             ''Gather more historical data for better predictions''] \<rparr>
      else
        \<lparr> evaluator_performance =
            ''Poor prediction accuracy. Significant model adjustments needed.'',
          suggested_adjustments =
            [''Review prediction basis - consider using more historical data'',
             ''Recalibrate confidence thresholds'',
             ''Analyze test discrepancies for systematic bias'',
             ''Consider adjusting baseline assumptions''] \<rparr>)"

definition handleAgentDiscrepancy ::
  "string + PredictionDiscrepancyRequest \<Rightarrow> DB \<Rightarrow> Response \<times> DB" where
  \<comment> \<open>As for \<open>handleAgentPrediction\<close>, \<open>Inl message\<close> is a \<^verbatim>\<open>request.json()\<close> that throws.
      The \<^verbatim>\<open>try\<close> block runs the \<^verbatim>\<open>INSERT\<close> first: when it throws, the \<^verbatim>\<open>SELECT\<close> and the
      \<^verbatim>\<open>UPDATE\<close> of \<^verbatim>\<open>evaluators\<close> are not reached.\<close>
  "handleAgentDiscrepancy request db =
     (case request of
        Inl message \<Rightarrow> (Response 500 (ErrorBody message), db)
      | Inr body \<Rightarrow>
          if discrepancy_missing_required body then
            (Response 400 (ErrorBody
               ''Missing required fields: evaluator_url, target_url, predicted_score, actual_score''),
             db)
          else
            (case insert_prediction_discrepancy (discrepancy_row body) db of
               Inl message \<Rightarrow> (Response 500 (ErrorBody message), db)
             | Inr (discrepancy_id, db1) \<Rightarrow>
                 let db2 = db1 \<lparr> evaluators := update_prediction_accuracy body (evaluators db1) \<rparr>
                 in (Response 200 (DiscrepancyStored ''Discrepancy analysis received and stored''
                                     discrepancy_id (learning_insights (accuracy_category body))),
                     db2)))"

fun record_discrepancies :: "(string + PredictionDiscrepancyRequest) list \<Rightarrow> DB \<Rightarrow> DB" where
  \<comment> \<open>The database after a stream of requests to \<^verbatim>\<open>/internal/agent-discrepancy\<close>, handled
      one after the other.\<close>
  "record_discrepancies [] db = db"
| "record_discrepancies (request # requests) db =
     record_discrepancies requests (snd (handleAgentDiscrepancy request db))"

subsection \<open>The specification's formulas, for comparison\<close>


definition spec_trust_delta :: "AccuracyCategory \<Rightarrow> int" where
  \<comment> \<open>"excellent +10, good +5, fair -5, poor -15".\<close>
  "spec_trust_delta category =
     (case category of Excellent \<Rightarrow> 10 | Good \<Rightarrow> 5 | Fair \<Rightarrow> - 5 | Poor \<Rightarrow> - 15)"

definition spec_clamp_trust_score :: "int \<Rightarrow> int" where
  \<comment> \<open>"clamp resulting trust_score to [0,1000]".\<close>
  "spec_clamp_trust_score t = max 0 (min 1000 t)"

definition spec_prediction_accuracy_rate :: "real \<Rightarrow> real" where
  \<comment> \<open>"1 - new_avg_error/100 (clamped to [0,1])".\<close>
  "spec_prediction_accuracy_rate avg_error = max 0 (min 1 (1 - avg_error / 100))"

subsection \<open>Concrete inputs\<close>

definition healthy_test :: EndpointTest where
  "healthy_test =
     \<lparr> endpoint_id = 1, test_timestamp = 0, status_code = Some 200,
       response_time_ms = Some 100, is_successful = True, error_message = None,
       response_sample = Some ''{}'' \<rparr>"

definition failed_test :: EndpointTest where
  "failed_test =
     \<lparr> endpoint_id = 1, test_timestamp = 1700000000, status_code = Some 500,
       response_time_ms = Some 340, is_successful = False, error_message = Some ''HTTP 500'',
       response_sample = None \<rparr>"

definition evaluator_a :: EvaluatorRow where
  "evaluator_a =
     \<lparr> ev_id = 1, ev_evaluator_url = ''https://evaluator.example'', ev_trust_score = 500,
       ev_prediction_accuracy_rate = 0, ev_calibration_score = 0, ev_consistency_score = 0,
       ev_total_evaluations = 0, ev_total_predictions = 0, ev_avg_absolute_error = 0,
       ev_grade_accuracy_rate = 0 \<rparr>"

definition db_empty :: DB where
  "db_empty =
     \<lparr> agent_evaluations = [], evaluation_predictions = [], prediction_discrepancies = [],
       evaluators = [], evaluator_reputation_history = [] \<rparr>"

definition db_one :: DB where
  \<comment> \<open>One registered evaluator with a fresh profile, nothing else stored.\<close>
  "db_one = db_empty \<lparr> evaluators := [evaluator_a] \<rparr>"

definition excellent_body :: PredictionDiscrepancyRequest where
  "excellent_body =
     \<lparr> evaluator_url = Val ''https://evaluator.example'',
       target_url = Val ''https://target.example'',
       analysis_timestamp = 1700000000,
       predicted_score = Val 80, actual_score = Val 82,
       score_difference = 2, absolute_error = 2,
       predicted_grade = ''B'', actual_grade = ''B'', grade_match = True,
       confidence_was = 0.9, prediction_basis_was = ''historical'',
       test_discrepancies = Undefined, accuracy_category = Excellent, overestimated = False \<rparr>"

definition poor_body :: PredictionDiscrepancyRequest where
  "poor_body =
     excellent_body \<lparr> predicted_score := Val 90, actual_score := Val 60,
       score_difference := - 30, absolute_error := 30,
       predicted_grade := ''A'', actual_grade := ''D'', grade_match := False,
       accuracy_category := Poor, overestimated := True \<rparr>"

definition mislabelled_body :: PredictionDiscrepancyRequest where
  \<comment> \<open>An absolute error of 50 submitted with the category "excellent".\<close>
  "mislabelled_body =
     poor_body \<lparr> predicted_score := Val 90, actual_score := Val 40,
       score_difference := - 50, absolute_error := 50, accuracy_category := Excellent \<rparr>"

definition null_score_body :: PredictionDiscrepancyRequest where
  \<comment> \<open>A JSON \<^verbatim>\<open>null\<close> for \<^verbatim>\<open>predicted_score\<close>.\<close>
  "null_score_body = excellent_body \<lparr> predicted_score := Null \<rparr>"



definition overconfident_prediction :: EvaluationPredictionRequest where
  \<comment> \<open>A prediction with every required field and \<^verbatim>\<open>confidence_level = 1.5\<close>.\<close>
  "overconfident_prediction =
     \<lparr> prediction_evaluator_url = Val ''https://evaluator.example'',
       evaluator_name = Undefined,
       prediction_target_url = Val ''https://target.example'',
       target_name = Undefined,
       prediction_timestamp = Val 1700000000,
       prediction_predicted_score = Val 80,
       prediction_predicted_grade = Val ''B'',
       confidence_level = Val 1.5,
       prediction_basis = Val ''historical'',
       historical_data_points = Val 12,
       similar_agents_analyzed = Undefined,
       features_analyzed = Undefined,
       actual_evaluation_id = Undefined \<rparr>"

definition anonymous_prediction :: EvaluationPredictionRequest where
  \<comment> \<open>The same prediction without its \<^verbatim>\<open>evaluator_url\<close>.\<close>
  "anonymous_prediction = overconfident_prediction \<lparr> prediction_evaluator_url := Undefined \<rparr>"

definition dangling_prediction :: EvaluationPredictionRequest where
  \<comment> \<open>The same prediction referring to an evaluation that does not exist.\<close>
  "dangling_prediction = overconfident_prediction \<lparr> actual_evaluation_id := Val 7 \<rparr>"

section \<open>Trust score: grades, the empty latency sample, the clock\<close>

lemma trust_score_fields:
  assumes "tests \<noteq> []"
  shows "overall_score (calculateTrustScoreForEndpoint e tests now) =
     calculateOverallScore (calculateUptimeScore (calculateUptime tests))
       (calculateSpeedScore (calculateAvgResponseTime tests))
       (calculateAccuracyScore tests)
       (calculateAgeScore now (test_timestamp (last tests)))"
   and "uptime_score (calculateTrustScoreForEndpoint e tests now) =
     js_round (calculateUptimeScore (calculateUptime tests) * 10) / 10"
   and "speed_score (calculateTrustScoreForEndpoint e tests now) =
     js_round (calculateSpeedScore (calculateAvgResponseTime tests) * 10) / 10"
   and "accuracy_score (calculateTrustScoreForEndpoint e tests now) =
     js_round (calculateAccuracyScore tests * 10) / 10"
   and "age_score (calculateTrustScoreForEndpoint e tests now) =
     js_round (calculateAgeScore now (test_timestamp (last tests)) * 10) / 10"
   and "grade (calculateTrustScoreForEndpoint e tests now) =
     calculateGrade (overall_score (calculateTrustScoreForEndpoint e tests now))"
   and "recommendation (calculateTrustScoreForEndpoint e tests now) =
     calculateRecommendation (overall_score (calculateTrustScoreForEndpoint e tests now))"
  using assms by (simp_all add: calculateTrustScoreForEndpoint_def Let_def)

text \<open>
  Claim C8. For every score \<open>s\<close>, \<^verbatim>\<open>calculateGrade\<close> returns a grade exactly on its band
  (A+ from 98, A from 93, A- from 90, B+ from 87, B from 83, B- from 80, C+ from 77,
  C from 73, C- from 70, D from 60, F below 60) and \<^verbatim>\<open>calculateRecommendation\<close> returns
  TRUSTED from 85, CAUTION from 65 and AVOID below. Each band is described by an
  equivalence, so the bands do not overlap; the grade is always one of the eleven
  labels, which are pairwise different, so the bands cover every score.
\<close>

theorem grade_recommendation_bands:
  "(calculateGrade s = ''A+'' \<longleftrightarrow> 98 \<le> s) \<and>
   (calculateGrade s = ''A'' \<longleftrightarrow> 93 \<le> s \<and> s < 98) \<and>
   (calculateGrade s = ''A-'' \<longleftrightarrow> 90 \<le> s \<and> s < 93) \<and>
   (calculateGrade s = ''B+'' \<longleftrightarrow> 87 \<le> s \<and> s < 90) \<and>
   (calculateGrade s = ''B'' \<longleftrightarrow> 83 \<le> s \<and> s < 87) \<and>
   (calculateGrade s = ''B-'' \<longleftrightarrow> 80 \<le> s \<and> s < 83) \<and>
   (calculateGrade s = ''C+'' \<longleftrightarrow> 77 \<le> s \<and> s < 80) \<and>
   (calculateGrade s = ''C'' \<longleftrightarrow> 73 \<le> s \<and> s < 77) \<and>
   (calculateGrade s = ''C-'' \<longleftrightarrow> 70 \<le> s \<and> s < 73) \<and>
   (calculateGrade s = ''D'' \<longleftrightarrow> 60 \<le> s \<and> s < 70) \<and>
   (calculateGrade s = ''F'' \<longleftrightarrow> s < 60) \<and>
   (calculateRecommendation s = TRUSTED \<longleftrightarrow> 85 \<le> s) \<and>
   (calculateRecommendation s = CAUTION \<longleftrightarrow> 65 \<le> s \<and> s < 85) \<and>
   (calculateRecommendation s = AVOID \<longleftrightarrow> s < 65) \<and>
   calculateGrade s \<in>
     set [''A+'', ''A'', ''A-'', ''B+'', ''B'', ''B-'', ''C+'', ''C'', ''C-'', ''D'', ''F''] \<and>
   distinct [''A+'', ''A'', ''A-'', ''B+'', ''B'', ''B-'', ''C+'', ''C'', ''C-'', ''D'', ''F'']"
  unfolding calculateGrade_def calculateRecommendation_def
  by (simp add: not_le)

theorem grade_recommendation_bands_witness:
  "calculateGrade 98 = ''A+'' \<and> calculateGrade (979 / 10) = ''A'' \<and> calculateGrade 60 = ''D''
   \<and> calculateGrade (599 / 10) = ''F'' \<and> calculateGrade 0 = ''F'' \<and> calculateGrade 100 = ''A+''
   \<and> calculateRecommendation 85 = TRUSTED \<and> calculateRecommendation (849 / 10) = CAUTION
   \<and> calculateRecommendation 65 = CAUTION \<and> calculateRecommendation (649 / 10) = AVOID"
  using grade_recommendation_bands [of 98] grade_recommendation_bands [of "979 / 10"]
    grade_recommendation_bands [of 60] grade_recommendation_bands [of "599 / 10"]
    grade_recommendation_bands [of 0] grade_recommendation_bands [of 100]
    grade_recommendation_bands [of 85] grade_recommendation_bands [of "849 / 10"]
    grade_recommendation_bands [of 65] grade_recommendation_bands [of "649 / 10"]
  by simp

lemma no_latency_sample:
  assumes "\<forall>t \<in> set tests. \<not> (is_successful t \<and> truthy_number (response_time_ms t))"
  shows "calculateAvgResponseTime tests = 0"
proof -
  have "filter (\<lambda>t. is_successful t \<and> truthy_number (response_time_ms t)) tests = []"
    using assms by (simp add: filter_empty_conv)
  then show ?thesis by (simp add: calculateAvgResponseTime_def)
qed

lemma speed_score_zero: "calculateSpeedScore 0 = 100"
  by (simp add: calculateSpeedScore_def)

lemma all_failed_uptime:
  assumes "\<forall>t \<in> set tests. \<not> is_successful t"
  shows "calculateUptimeScore (calculateUptime tests) = 0"
proof -
  have "filter is_successful tests = []"
    using assms by (simp add: filter_empty_conv)
  then show ?thesis by (simp add: calculateUptime_def calculateUptimeScore_def)
qed

lemma round_one_decimal: "js_round (100 * 10) / 10 = 100" "js_round (0 * 10) / 10 = 0"
  by (simp_all add: js_round_def)

text \<open>
  Claim C10. For a non-empty window in which no test is both successful and carries a
  non-zero response time, \<^verbatim>\<open>calculateAvgResponseTime\<close> is 0, hence the speed score is 100,
  the stored \<open>speed_score\<close> is 100, and the overall score is computed with the full
  speed contribution \<open>0.25 * 100\<close>; when all tests of the window failed, the stored
  \<open>uptime_score\<close> is 0 all the same.
\<close>

theorem no_latency_speed_score:
  assumes "tests \<noteq> []"
    and "\<forall>t \<in> set tests. \<not> (is_successful t \<and> truthy_number (response_time_ms t))"
  shows "calculateAvgResponseTime tests = 0
    \<and> calculateSpeedScore (calculateAvgResponseTime tests) = 100
    \<and> speed_score (calculateTrustScoreForEndpoint e tests now) = 100
    \<and> overall_score (calculateTrustScoreForEndpoint e tests now) =
        js_round ((calculateUptimeScore (calculateUptime tests) * 0.35 + 0.25 * 100
                   + calculateAccuracyScore tests * 0.30
                   + calculateAgeScore now (test_timestamp (last tests)) * 0.10) * 10) / 10
    \<and> ((\<forall>t \<in> set tests. \<not> is_successful t) \<longrightarrow>
          uptime_score (calculateTrustScoreForEndpoint e tests now) = 0)"
proof -
  have avg: "calculateAvgResponseTime tests = 0"
    using assms(2) by (rule no_latency_sample)
  have speed: "calculateSpeedScore (calculateAvgResponseTime tests) = 100"
    by (simp add: avg speed_score_zero)
  have field: "speed_score (calculateTrustScoreForEndpoint e tests now) = 100"
    using round_one_decimal(1) by (simp add: trust_score_fields(3) [OF assms(1)] speed)
  have overall: "overall_score (calculateTrustScoreForEndpoint e tests now) =
        js_round ((calculateUptimeScore (calculateUptime tests) * 0.35 + 0.25 * 100
                   + calculateAccuracyScore tests * 0.30
                   + calculateAgeScore now (test_timestamp (last tests)) * 0.10) * 10) / 10"
    by (simp add: trust_score_fields(1) [OF assms(1)] speed calculateOverallScore_def)
  have up: "(\<forall>t \<in> set tests. \<not> is_successful t) \<longrightarrow>
          uptime_score (calculateTrustScoreForEndpoint e tests now) = 0"
    using round_one_decimal(2)
    by (simp add: trust_score_fields(2) [OF assms(1)] all_failed_uptime)
  from avg speed field overall up show ?thesis by blast
qed

lemma failed_window:
  "replicate 100 failed_test \<noteq> []"
  "\<forall>t \<in> set (replicate 100 failed_test).
      \<not> (is_successful t \<and> truthy_number (response_time_ms t))"
  "\<forall>t \<in> set (replicate 100 failed_test). \<not> is_successful t"
  by (simp_all add: failed_test_def)

theorem no_latency_speed_score_witness:
  "length (replicate 100 failed_test) = 100
   \<and> calculateAvgResponseTime (replicate 100 failed_test) = 0
   \<and> speed_score (calculateTrustScoreForEndpoint 1 (replicate 100 failed_test) 1700000600000) = 100
   \<and> uptime_score (calculateTrustScoreForEndpoint 1 (replicate 100 failed_test) 1700000600000) = 0"
  using no_latency_speed_score [OF failed_window(1) failed_window(2), of 1 1700000600000]
    failed_window(3)
  by simp

lemma same_second_same_age:
  "js_floor (real_of_int d1 / 1000) = js_floor (real_of_int d2 / 1000) \<Longrightarrow>
   calculateAgeScore d1 ts = calculateAgeScore d2 ts"
  by (simp add: calculateAgeScore_def)

lemma healthy_window:
  "calculateUptimeScore (calculateUptime [healthy_test]) = 100"
  "calculateSpeedScore (calculateAvgResponseTime [healthy_test]) = 195 / 2"
  "calculateAccuracyScore [healthy_test] = 100"
  "test_timestamp healthy_test = 0"
  by (simp_all add: calculateUptime_def calculateUptimeScore_def calculateAvgResponseTime_def
      calculateSpeedScore_def calculateAccuracyScore_def healthy_test_def)

lemma healthy_age:
  "calculateAgeScore 86400000 0 = 40 / 3"
  "calculateAgeScore 3456000000 0 = 286 / 3"
  by (simp_all add: calculateAgeScore_def js_floor_def)

lemma healthy_overall:
  "overall_score (calculateTrustScoreForEndpoint 1 [healthy_test] 86400000) = 907 / 10"
  "overall_score (calculateTrustScoreForEndpoint 1 [healthy_test] 3456000000) = 989 / 10"
  by (simp_all add: trust_score_fields(1) healthy_window healthy_age)
     (simp_all add: calculateOverallScore_def js_round_def)

lemma healthy_age_score:
  "age_score (calculateTrustScoreForEndpoint 1 [healthy_test] 86400000) = 133 / 10"
  "age_score (calculateTrustScoreForEndpoint 1 [healthy_test] 3456000000) = 953 / 10"
  by (simp_all add: trust_score_fields(5) healthy_window healthy_age)
     (simp_all add: js_round_def)

text \<open>
  Claim C4, as the code has it. The trust score is a function of the window and of the
  clock: \<open>uptime_score\<close>, \<open>speed_score\<close>, \<open>accuracy_score\<close>, the three test counters,
  \<open>avg_response_time_ms\<close> and \<open>first_tested_at\<close> are the same whatever the time of the
  computation, and two computations over the same window whose clocks show the same
  second return the same record. (The age score, and with it the overall score, the
  grade and the recommendation, follow the clock.)
\<close>

theorem trust_score_determinism:
  "uptime_score (calculateTrustScoreForEndpoint e tests d1)
     = uptime_score (calculateTrustScoreForEndpoint e tests d2)
   \<and> speed_score (calculateTrustScoreForEndpoint e tests d1)
     = speed_score (calculateTrustScoreForEndpoint e tests d2)
   \<and> accuracy_score (calculateTrustScoreForEndpoint e tests d1)
     = accuracy_score (calculateTrustScoreForEndpoint e tests d2)
   \<and> total_tests (calculateTrustScoreForEndpoint e tests d1)
     = total_tests (calculateTrustScoreForEndpoint e tests d2)
   \<and> successful_tests (calculateTrustScoreForEndpoint e tests d1)
     = successful_tests (calculateTrustScoreForEndpoint e tests d2)
   \<and> failed_tests (calculateTrustScoreForEndpoint e tests d1)
     = failed_tests (calculateTrustScoreForEndpoint e tests d2)
   \<and> avg_response_time_ms (calculateTrustScoreForEndpoint e tests d1)
     = avg_response_time_ms (calculateTrustScoreForEndpoint e tests d2)
   \<and> first_tested_at (calculateTrustScoreForEndpoint e tests d1)
     = first_tested_at (calculateTrustScoreForEndpoint e tests d2)
   \<and> (js_floor (real_of_int d1 / 1000) = js_floor (real_of_int d2 / 1000) \<longrightarrow>
        calculateTrustScoreForEndpoint e tests d1 = calculateTrustScoreForEndpoint e tests d2)"
proof -
  have window: "uptime_score (calculateTrustScoreForEndpoint e tests d1)
     = uptime_score (calculateTrustScoreForEndpoint e tests d2)
   \<and> speed_score (calculateTrustScoreForEndpoint e tests d1)
     = speed_score (calculateTrustScoreForEndpoint e tests d2)
   \<and> accuracy_score (calculateTrustScoreForEndpoint e tests d1)
     = accuracy_score (calculateTrustScoreForEndpoint e tests d2)
   \<and> total_tests (calculateTrustScoreForEndpoint e tests d1)
     = total_tests (calculateTrustScoreForEndpoint e tests d2)
   \<and> successful_tests (calculateTrustScoreForEndpoint e tests d1)
     = successful_tests (calculateTrustScoreForEndpoint e tests d2)
   \<and> failed_tests (calculateTrustScoreForEndpoint e tests d1)
     = failed_tests (calculateTrustScoreForEndpoint e tests d2)
   \<and> avg_response_time_ms (calculateTrustScoreForEndpoint e tests d1)
     = avg_response_time_ms (calculateTrustScoreForEndpoint e tests d2)
   \<and> first_tested_at (calculateTrustScoreForEndpoint e tests d1)
     = first_tested_at (calculateTrustScoreForEndpoint e tests d2)"
    by (simp add: calculateTrustScoreForEndpoint_def Let_def)
  have clock: "js_floor (real_of_int d1 / 1000) = js_floor (real_of_int d2 / 1000) \<longrightarrow>
        calculateTrustScoreForEndpoint e tests d1 = calculateTrustScoreForEndpoint e tests d2"
  proof
    assume same: "js_floor (real_of_int d1 / 1000) = js_floor (real_of_int d2 / 1000)"
    then have "calculateAgeScore d1 (test_timestamp (last tests))
        = calculateAgeScore d2 (test_timestamp (last tests))"
      by (rule same_second_same_age)
    with same
    show "calculateTrustScoreForEndpoint e tests d1 = calculateTrustScoreForEndpoint e tests d2"
      by (simp add: calculateTrustScoreForEndpoint_def Let_def)
  qed
  from window clock show ?thesis by blast
qed

theorem trust_score_determinism_witness:
  "js_floor (real_of_int 86400000 / 1000) = js_floor (real_of_int 86400999 / 1000)
   \<and> calculateTrustScoreForEndpoint 1 [healthy_test] 86400000
       = calculateTrustScoreForEndpoint 1 [healthy_test] 86400999
   \<and> uptime_score (calculateTrustScoreForEndpoint 1 [healthy_test] 86400000)
       = uptime_score (calculateTrustScoreForEndpoint 1 [healthy_test] 3456000000)"
proof -
  have same: "js_floor (real_of_int 86400000 / 1000) = js_floor (real_of_int 86400999 / 1000)"
    by (simp add: js_floor_def)
  with trust_score_determinism [of 1 "[healthy_test]" 86400000 86400999]
    trust_score_determinism [of 1 "[healthy_test]" 86400000 3456000000]
  show ?thesis by blast
qed

theorem trust_score_clock_counterexample:
  "age_score (calculateTrustScoreForEndpoint 1 [healthy_test] 86400000) = 133 / 10
   \<and> age_score (calculateTrustScoreForEndpoint 1 [healthy_test] 3456000000) = 953 / 10
   \<and> overall_score (calculateTrustScoreForEndpoint 1 [healthy_test] 86400000) = 907 / 10
   \<and> overall_score (calculateTrustScoreForEndpoint 1 [healthy_test] 3456000000) = 989 / 10
   \<and> grade (calculateTrustScoreForEndpoint 1 [healthy_test] 86400000) = ''A-''
   \<and> grade (calculateTrustScoreForEndpoint 1 [healthy_test] 3456000000) = ''A+''"
  by (simp add: healthy_age_score healthy_overall trust_score_fields(6) calculateGrade_def)

section \<open>Discrepancy requests: what the handler can write\<close>

text \<open>
  The lemmas of this section follow every branch of the handler, the one after an
  accepted \<^verbatim>\<open>INSERT\<close> included.
\<close>

lemma update_evaluators_trust_score:
  "map ev_trust_score (update_evaluators n a g r i rows) = map ev_trust_score rows"
  by (simp add: update_evaluators_def)

lemma update_evaluators_url:
  "map ev_evaluator_url (update_evaluators n a g r i rows) = map ev_evaluator_url rows"
  by (simp add: update_evaluators_def)

lemma update_prediction_accuracy_trust_score:
  "map ev_trust_score (update_prediction_accuracy body rows) = map ev_trust_score rows"
  by (simp add: update_prediction_accuracy_def Let_def update_evaluators_trust_score
      split: option.split)

lemma update_prediction_accuracy_url:
  "map ev_evaluator_url (update_prediction_accuracy body rows) = map ev_evaluator_url rows"
  by (simp add: update_prediction_accuracy_def Let_def update_evaluators_url
      split: option.split)

lemma insert_prediction_discrepancy_frame:
  assumes "insert_prediction_discrepancy row db = Inr (new_id, db1)"
  shows "evaluators db1 = evaluators db"
    and "evaluator_reputation_history db1 = evaluator_reputation_history db"
  using assms
  by (auto simp add: insert_prediction_discrepancy_def Let_def split: if_splits)

lemma handleAgentDiscrepancy_branches:
  "snd (handleAgentDiscrepancy request db) = db
   \<or> (\<exists>body new_id db1. request = Inr body
        \<and> insert_prediction_discrepancy (discrepancy_row body) db = Inr (new_id, db1)
        \<and> snd (handleAgentDiscrepancy request db) =
            db1 \<lparr> evaluators := update_prediction_accuracy body (evaluators db1) \<rparr>)"
proof (cases request)
  case (Inl message)
  then show ?thesis by (simp add: handleAgentDiscrepancy_def)
next
  case (Inr body)
  show ?thesis
  proof (cases "insert_prediction_discrepancy (discrepancy_row body) db")
    case (Inl message)
    with Inr show ?thesis by (simp add: handleAgentDiscrepancy_def)
  next
    case inserted: (Inr result)
    obtain new_id db1 where "result = (new_id, db1)" by (cases result)
    with Inr inserted show ?thesis by (simp add: handleAgentDiscrepancy_def Let_def)
  qed
qed

lemma handleAgentDiscrepancy_trust_score:
  "map ev_trust_score (evaluators (snd (handleAgentDiscrepancy request db)))
     = map ev_trust_score (evaluators db)"
  using handleAgentDiscrepancy_branches [of request db]
  by (auto simp add: update_prediction_accuracy_trust_score
      dest: insert_prediction_discrepancy_frame(1))

lemma handleAgentDiscrepancy_url:
  "map ev_evaluator_url (evaluators (snd (handleAgentDiscrepancy request db)))
     = map ev_evaluator_url (evaluators db)"
  using handleAgentDiscrepancy_branches [of request db]
  by (auto simp add: update_prediction_accuracy_url
      dest: insert_prediction_discrepancy_frame(1))

lemma handleAgentDiscrepancy_history:
  "evaluator_reputation_history (snd (handleAgentDiscrepancy request db))
     = evaluator_reputation_history db"
  using handleAgentDiscrepancy_branches [of request db]
  by (auto dest: insert_prediction_discrepancy_frame(2))

lemma record_discrepancies_trust_score:
  "map ev_trust_score (evaluators (record_discrepancies requests db))
     = map ev_trust_score (evaluators db)"
  by (induction requests arbitrary: db) (simp_all add: handleAgentDiscrepancy_trust_score)

lemma record_discrepancies_url:
  "map ev_evaluator_url (evaluators (record_discrepancies requests db))
     = map ev_evaluator_url (evaluators db)"
  by (induction requests arbitrary: db) (simp_all add: handleAgentDiscrepancy_url)

lemma trust_score_range_map:
  "(\<forall>e \<in> set rows. 0 \<le> ev_trust_score e \<and> ev_trust_score e \<le> 1000)
     \<longleftrightarrow> (\<forall>t \<in> set (map ev_trust_score rows). 0 \<le> t \<and> t \<le> 1000)"
  by simp

lemma select_evaluator_None:
  "select_evaluator url rows = None \<longleftrightarrow> url \<notin> set (map Some (map ev_evaluator_url rows))"
  by (auto simp add: select_evaluator_def find_None_iff)

text \<open>
  The row that \<^verbatim>\<open>SELECT ... WHERE evaluator_url = ?\<close> finds is, after the \<^verbatim>\<open>UPDATE\<close> on
  its \<open>id\<close>, found again with the four columns replaced: the block following the
  \<^verbatim>\<open>INSERT\<close> adds one to \<open>total_predictions\<close>, sets the two averages by
  \<open>(old_avg * old_n + new_value) / (old_n + 1)\<close> and the rate to \<open>1 - new_avg / 100\<close>.
\<close>

lemma select_evaluator_update_evaluators:
  assumes "select_evaluator url rows = Some e"
  shows "select_evaluator url (update_evaluators n a g r (ev_id e) rows) =
         Some (e \<lparr> ev_total_predictions := n, ev_avg_absolute_error := a,
                   ev_grade_accuracy_rate := g, ev_prediction_accuracy_rate := r \<rparr>)"
  using assms
proof (induction rows)
  case Nil
  then show ?case by (simp add: select_evaluator_def)
next
  case (Cons x rows)
  show ?case
  proof (cases "Some (ev_evaluator_url x) = url")
    case True
    with Cons.prems have "e = x" by (simp add: select_evaluator_def)
    with True show ?thesis by (simp add: select_evaluator_def update_evaluators_def)
  next
    case False
    with Cons.prems have "select_evaluator url rows = Some e"
      by (simp add: select_evaluator_def)
    from Cons.IH [OF this] False show ?thesis
      by (simp add: select_evaluator_def update_evaluators_def)
  qed
qed

lemma update_prediction_accuracy_profile:
  assumes "select_evaluator (sql_value (evaluator_url body)) rows = Some p"
  shows "select_evaluator (sql_value (evaluator_url body)) (update_prediction_accuracy body rows) =
         Some (p \<lparr> ev_total_predictions := ev_total_predictions p + 1,
                   ev_avg_absolute_error :=
                     (ev_avg_absolute_error p * real (ev_total_predictions p) + absolute_error body)
                     / real (ev_total_predictions p + 1),
                   ev_grade_accuracy_rate :=
                     (ev_grade_accuracy_rate p * real (ev_total_predictions p)
                      + (if grade_match body then 1 else 0))
                     / real (ev_total_predictions p + 1),
                   ev_prediction_accuracy_rate :=
                     1 - ((ev_avg_absolute_error p * real (ev_total_predictions p)
                           + absolute_error body)
                          / real (ev_total_predictions p + 1)) / 100 \<rparr>)"
  using assms
  by (simp add: update_prediction_accuracy_def Let_def select_evaluator_update_evaluators)

subsection \<open>The rejected INSERT\<close>

text \<open>
  The row the handler builds has no \<^verbatim>\<open>prediction_id\<close> and no \<^verbatim>\<open>evaluation_id\<close>, so the
  table rejects it whatever the request: a request that passes the check of the
  required fields is answered 500, and no request changes the database.
\<close>

lemma discrepancy_insert_rejected:
  "insert_prediction_discrepancy (discrepancy_row body) db =
     Inl ''constraint failed: prediction_discrepancies''"
  by (simp add: insert_prediction_discrepancy_def prediction_discrepancies_accepts_def
      discrepancy_row_def)

lemma handleAgentDiscrepancy_unchanged:
  "snd (handleAgentDiscrepancy request db) = db"
  by (cases request) (simp_all add: handleAgentDiscrepancy_def discrepancy_insert_rejected)

lemma handleAgentDiscrepancy_status:
  "status (fst (handleAgentDiscrepancy (Inr body) db)) =
     (if discrepancy_missing_required body then 400 else 500)"
  by (simp add: handleAgentDiscrepancy_def discrepancy_insert_rejected)


subsection \<open>The concrete requests\<close>

lemma bodies_accepted:
  "\<not> discrepancy_missing_required excellent_body"
  "\<not> discrepancy_missing_required poor_body"
  "\<not> discrepancy_missing_required mislabelled_body"
  "\<not> discrepancy_missing_required null_score_body"
  by (simp_all add: discrepancy_missing_required_def excellent_body_def poor_body_def
      mislabelled_body_def null_score_body_def)

lemma db_one_columns:
  "map ev_trust_score (evaluators db_one) = [500]"
  "map ev_evaluator_url (evaluators db_one) = [''https://evaluator.example'']"
  "map ev_total_predictions (evaluators db_one) = [0]"
  "map ev_avg_absolute_error (evaluators db_one) = [0]"
  "map ev_grade_accuracy_rate (evaluators db_one) = [0]"
  "map ev_prediction_accuracy_rate (evaluators db_one) = [0]"
  "evaluator_reputation_history db_one = []"
  by (simp_all add: db_one_def db_empty_def evaluator_a_def)

lemma select_evaluator_nobody:
  "select_evaluator url (evaluators db_empty) = None"
  by (simp add: select_evaluator_def db_empty_def)

section \<open>The evaluator's trust score, profile and snapshots\<close>

text \<open>
  Claim C1, as the code has it. Recording discrepancies never changes the
  \<open>trust_score\<close> of any evaluator: the handler's update writes four other columns and
  applies no per-category delta. Hence, for every sequence of requests, trust scores
  that lie in \<open>[0, 1000]\<close> before still lie there afterwards, however long a run of
  "poor" or of "excellent" discrepancies is.
\<close>

theorem trust_score_unchanged:
  "map ev_trust_score (evaluators (record_discrepancies requests db))
     = map ev_trust_score (evaluators db)
   \<and> ((\<forall>e \<in> set (evaluators db). 0 \<le> ev_trust_score e \<and> ev_trust_score e \<le> 1000) \<longrightarrow>
      (\<forall>e \<in> set (evaluators (record_discrepancies requests db)).
          0 \<le> ev_trust_score e \<and> ev_trust_score e \<le> 1000))"
  by (simp only: trust_score_range_map record_discrepancies_trust_score) simp

theorem trust_score_unchanged_witness:
  "map ev_trust_score (evaluators db_one) = [500]
   \<and> map ev_trust_score
        (evaluators (record_discrepancies [Inr poor_body, Inr poor_body, Inr excellent_body] db_one))
      = [500]"
proof -
  have "map ev_trust_score (evaluators db_one) = [500]"
    by (rule db_one_columns(1))
  with trust_score_unchanged [of "[Inr poor_body, Inr poor_body, Inr excellent_body]" db_one]
  show ?thesis by simp
qed

theorem trust_score_delta_counterexample:
  "map ev_trust_score (evaluators db_one) = [500]
   \<and> map ev_trust_score (evaluators (snd (handleAgentDiscrepancy (Inr excellent_body) db_one)))
       = [500]
   \<and> spec_clamp_trust_score (500 + spec_trust_delta (accuracy_category excellent_body)) = 510"
  by (simp add: handleAgentDiscrepancy_trust_score db_one_columns(1))
     (simp add: excellent_body_def spec_trust_delta_def spec_clamp_trust_score_def)

text \<open>
  Claim C2, as the code has it. Recording discrepancies creates no profile: the handler
  never inserts into \<^verbatim>\<open>evaluators\<close>, so after every sequence of requests the table lists the
  same evaluator identities as before, and an identity that had no profile still has
  none.
\<close>

theorem unregistered_evaluator_not_created:
  "map ev_evaluator_url (evaluators (record_discrepancies requests db))
     = map ev_evaluator_url (evaluators db)
   \<and> (select_evaluator url (evaluators db) = None \<longrightarrow>
        select_evaluator url (evaluators (record_discrepancies requests db)) = None)"
  by (simp add: select_evaluator_None record_discrepancies_url)

theorem unregistered_evaluator_not_created_witness:
  "select_evaluator (sql_value (evaluator_url excellent_body)) (evaluators db_empty) = None
   \<and> select_evaluator (sql_value (evaluator_url excellent_body))
       (evaluators (record_discrepancies [Inr excellent_body, Inr poor_body] db_empty)) = None
   \<and> map ev_evaluator_url
       (evaluators (record_discrepancies [Inr excellent_body, Inr poor_body] db_one))
      = [''https://evaluator.example'']"
  using unregistered_evaluator_not_created
      [of "[Inr excellent_body, Inr poor_body]" db_empty
          "sql_value (evaluator_url excellent_body)"]
    unregistered_evaluator_not_created [of "[Inr excellent_body, Inr poor_body]" db_one]
    select_evaluator_nobody db_one_columns(2)
  by simp

theorem lazy_profile_counterexample:
  "select_evaluator (sql_value (evaluator_url excellent_body)) (evaluators db_empty) = None
   \<and> select_evaluator (sql_value (evaluator_url excellent_body))
        (evaluators (snd (handleAgentDiscrepancy (Inr excellent_body) db_empty))) = None
   \<and> evaluators (snd (handleAgentDiscrepancy (Inr excellent_body) db_empty)) = []"
proof -
  have "map ev_evaluator_url (evaluators (snd (handleAgentDiscrepancy (Inr excellent_body) db_empty)))
      = []"
    by (simp add: handleAgentDiscrepancy_url db_empty_def)
  then have "evaluators (snd (handleAgentDiscrepancy (Inr excellent_body) db_empty)) = []"
    by simp
  then show ?thesis
    by (simp add: select_evaluator_def db_empty_def)
qed

text \<open>
  Claim C3, as the code has it. Recording discrepancies leaves the table
  \<^verbatim>\<open>evaluator_reputation_history\<close> exactly as it was: the handler appends no snapshot
  and it edits and deletes none.
\<close>

theorem reputation_history_unchanged:
  "evaluator_reputation_history (record_discrepancies requests db)
     = evaluator_reputation_history db"
  by (induction requests arbitrary: db) (simp_all add: handleAgentDiscrepancy_history)

theorem reputation_history_unchanged_witness:
  "evaluator_reputation_history
     (record_discrepancies [Inr excellent_body, Inr poor_body] db_one) = []"
  using reputation_history_unchanged [of "[Inr excellent_body, Inr poor_body]" db_one]
  by (simp add: db_one_columns(7))

theorem snapshot_counterexample:
  "evaluator_reputation_history db_one = []
   \<and> evaluator_reputation_history (snd (handleAgentDiscrepancy (Inr excellent_body) db_one)) = []
   \<and> length (evaluator_reputation_history (snd (handleAgentDiscrepancy (Inr excellent_body) db_one)))
       \<noteq> length (evaluator_reputation_history db_one) + 1"
  by (simp add: handleAgentDiscrepancy_history db_one_columns(7))

section \<open>The stored category, the running averages and the accuracy rate\<close>

lemma null_score_reaches_insert:
  "status (fst (handleAgentDiscrepancy (Inr null_score_body) db)) = 500"
  by (simp add: handleAgentDiscrepancy_status bodies_accepted)





text \<open>
  Claim C6, where the code falls short of it. A registered evaluator with a fresh
  profile submits one discrepancy with absolute error 2 and matching grades. The block
  that follows the \<^verbatim>\<open>INSERT\<close> would set \<open>total_predictions\<close> to 1, \<open>avg_absolute_error\<close> to 2
  and \<open>grade_accuracy_rate\<close> to 1, as the claim says; the handler answers 500 at the
  \<^verbatim>\<open>INSERT\<close> and the three columns keep the value 0.
\<close>

theorem running_average_not_written:
  "status (fst (handleAgentDiscrepancy (Inr excellent_body) db_one)) = 500
   \<and> map ev_total_predictions
       (evaluators (snd (handleAgentDiscrepancy (Inr excellent_body) db_one))) = [0]
   \<and> map ev_avg_absolute_error
       (evaluators (snd (handleAgentDiscrepancy (Inr excellent_body) db_one))) = [0]
   \<and> map ev_grade_accuracy_rate
       (evaluators (snd (handleAgentDiscrepancy (Inr excellent_body) db_one))) = [0]
   \<and> map ev_total_predictions (update_prediction_accuracy excellent_body (evaluators db_one)) = [1]
   \<and> map ev_avg_absolute_error (update_prediction_accuracy excellent_body (evaluators db_one)) = [2]
   \<and> map ev_grade_accuracy_rate (update_prediction_accuracy excellent_body (evaluators db_one))
       = [1]"
proof -
  have block: "update_prediction_accuracy excellent_body (evaluators db_one) =
     [evaluator_a \<lparr> ev_total_predictions := 1, ev_avg_absolute_error := 2,
        ev_grade_accuracy_rate := 1, ev_prediction_accuracy_rate := 49 / 50 \<rparr>]"
    by (simp add: update_prediction_accuracy_def select_evaluator_def update_evaluators_def
        db_one_def db_empty_def evaluator_a_def excellent_body_def Let_def)
  show ?thesis
    by (simp add: handleAgentDiscrepancy_status bodies_accepted handleAgentDiscrepancy_unchanged
        db_one_columns block)
qed

theorem running_average_not_written_witness:
  "map ev_total_predictions
     (evaluators (snd (handleAgentDiscrepancy (Inr excellent_body) db_one))) = [0]"
  using running_average_not_written by simp

text \<open>
  Claim C7, where the code falls short of it. For the same request the block that
  follows the \<^verbatim>\<open>INSERT\<close> would set \<open>prediction_accuracy_rate\<close> to \<open>1 - 2 / 100\<close>, which is
  also the clamped value; the handler answers 500 at the \<^verbatim>\<open>INSERT\<close> and the column keeps
  the value 0.
\<close>

theorem prediction_accuracy_rate_not_written:
  "status (fst (handleAgentDiscrepancy (Inr excellent_body) db_one)) = 500
   \<and> map ev_prediction_accuracy_rate
       (evaluators (snd (handleAgentDiscrepancy (Inr excellent_body) db_one))) = [0]
   \<and> map ev_prediction_accuracy_rate
       (update_prediction_accuracy excellent_body (evaluators db_one)) = [49 / 50]
   \<and> spec_prediction_accuracy_rate 2 = 49 / 50"
proof -
  have block: "update_prediction_accuracy excellent_body (evaluators db_one) =
     [evaluator_a \<lparr> ev_total_predictions := 1, ev_avg_absolute_error := 2,
        ev_grade_accuracy_rate := 1, ev_prediction_accuracy_rate := 49 / 50 \<rparr>]"
    by (simp add: update_prediction_accuracy_def select_evaluator_def update_evaluators_def
        db_one_def db_empty_def evaluator_a_def excellent_body_def Let_def)
  show ?thesis
    by (simp add: handleAgentDiscrepancy_status bodies_accepted handleAgentDiscrepancy_unchanged
        db_one_columns block spec_prediction_accuracy_rate_def)
qed

theorem prediction_accuracy_rate_not_written_witness:
  "map ev_prediction_accuracy_rate
     (evaluators (snd (handleAgentDiscrepancy (Inr excellent_body) db_one))) = [0]"
  using prediction_accuracy_rate_not_written by simp

section \<open>Validation of a submitted prediction\<close>

lemma handleAgentPrediction_rejects:
  assumes "prediction_missing_required body"
  shows "status (fst (handleAgentPrediction (Inr body) db)) = 400"
    and "snd (handleAgentPrediction (Inr body) db) = db"
  using assms by (simp_all add: handleAgentPrediction_def)

lemma handleAgentPrediction_stores:
  assumes "\<not> prediction_missing_required body"
    and "evaluation_predictions_accepts (prediction_row body) db"
  shows "status (fst (handleAgentPrediction (Inr body) db)) = 200"
    and "evaluation_predictions (snd (handleAgentPrediction (Inr body) db)) =
           evaluation_predictions db
             @ [prediction_row body
                  \<lparr> ep_id := last_row_id (map ep_id (evaluation_predictions db)) \<rparr>]"
    and "ep_confidence_level (last (evaluation_predictions (snd (handleAgentPrediction (Inr body) db))))
           = sql_value (confidence_level body)"
  using assms
  by (simp_all add: handleAgentPrediction_def insert_evaluation_prediction_def Let_def
      prediction_row_def)

lemma handleAgentPrediction_throws:
  assumes "\<not> prediction_missing_required body"
    and "\<not> evaluation_predictions_accepts (prediction_row body) db"
  shows "status (fst (handleAgentPrediction (Inr body) db)) = 500"
    and "snd (handleAgentPrediction (Inr body) db) = db"
  using assms
  by (simp_all add: handleAgentPrediction_def insert_evaluation_prediction_def)

lemma predictions_required:
  "\<not> prediction_missing_required overconfident_prediction"
  "\<not> prediction_missing_required dangling_prediction"
  "falsy_string (prediction_evaluator_url anonymous_prediction)"
  "confidence_level overconfident_prediction = Val (3 / 2)"
  by (simp_all add: prediction_missing_required_def overconfident_prediction_def
      anonymous_prediction_def dangling_prediction_def)

lemma predictions_constraints:
  "evaluation_predictions_accepts (prediction_row overconfident_prediction) db_empty"
  "\<not> evaluation_predictions_accepts (prediction_row dangling_prediction) db_empty"
  by (simp_all add: evaluation_predictions_accepts_def prediction_row_def
      overconfident_prediction_def dangling_prediction_def db_empty_def)

text \<open>
  Claim C9, as the code has it. A prediction whose \<open>evaluator_url\<close>, \<open>target_url\<close> or
  \<open>predicted_grade\<close> is absent, null or empty, or whose \<open>predicted_score\<close> is absent or null,
  is answered with status 400 and the database is returned unchanged. The handler does not
  look at \<open>confidence_level\<close>: a prediction that passes the handler's check of the four
  fields and that the table accepts is answered with status 200 and stored, with its
  \<open>confidence_level\<close> exactly as submitted, whatever its value; one that the table rejects
  is answered with status 500 and the database is returned unchanged.
\<close>

theorem prediction_validation:
  "(falsy_string (prediction_evaluator_url body) \<or> falsy_string (prediction_target_url body)
      \<or> prediction_predicted_score body = Undefined \<or> prediction_predicted_score body = Null
      \<or> falsy_string (prediction_predicted_grade body)
     \<longrightarrow> status (fst (handleAgentPrediction (Inr body) db)) = 400
          \<and> snd (handleAgentPrediction (Inr body) db) = db)
   \<and> (\<not> prediction_missing_required body
        \<and> evaluation_predictions_accepts (prediction_row body) db
     \<longrightarrow> status (fst (handleAgentPrediction (Inr body) db)) = 200
          \<and> evaluation_predictions (snd (handleAgentPrediction (Inr body) db)) =
              evaluation_predictions db
                @ [prediction_row body
                     \<lparr> ep_id := last_row_id (map ep_id (evaluation_predictions db)) \<rparr>]
          \<and> ep_confidence_level
               (last (evaluation_predictions (snd (handleAgentPrediction (Inr body) db))))
              = sql_value (confidence_level body))
   \<and> (\<not> prediction_missing_required body
        \<and> \<not> evaluation_predictions_accepts (prediction_row body) db
     \<longrightarrow> status (fst (handleAgentPrediction (Inr body) db)) = 500
          \<and> snd (handleAgentPrediction (Inr body) db) = db)"
proof (intro conjI impI)
  assume missing: "falsy_string (prediction_evaluator_url body)
      \<or> falsy_string (prediction_target_url body)
      \<or> prediction_predicted_score body = Undefined \<or> prediction_predicted_score body = Null
      \<or> falsy_string (prediction_predicted_grade body)"
  then have m: "prediction_missing_required body"
    by (auto simp add: prediction_missing_required_def)
  from m show "status (fst (handleAgentPrediction (Inr body) db)) = 400"
    by (rule handleAgentPrediction_rejects(1))
  from m show "snd (handleAgentPrediction (Inr body) db) = db"
    by (rule handleAgentPrediction_rejects(2))
next
  assume "\<not> prediction_missing_required body
        \<and> evaluation_predictions_accepts (prediction_row body) db"
  then have ok: "\<not> prediction_missing_required body"
    and acc: "evaluation_predictions_accepts (prediction_row body) db"
    by simp_all
  from ok acc show "status (fst (handleAgentPrediction (Inr body) db)) = 200"
    by (rule handleAgentPrediction_stores(1))
  from ok acc show "evaluation_predictions (snd (handleAgentPrediction (Inr body) db)) =
              evaluation_predictions db
                @ [prediction_row body
                     \<lparr> ep_id := last_row_id (map ep_id (evaluation_predictions db)) \<rparr>]"
    by (rule handleAgentPrediction_stores(2))
  from ok acc show "ep_confidence_level
               (last (evaluation_predictions (snd (handleAgentPrediction (Inr body) db))))
              = sql_value (confidence_level body)"
    by (rule handleAgentPrediction_stores(3))
next
  assume "\<not> prediction_missing_required body
        \<and> \<not> evaluation_predictions_accepts (prediction_row body) db"
  then have ok: "\<not> prediction_missing_required body"
    and rej: "\<not> evaluation_predictions_accepts (prediction_row body) db"
    by simp_all
  from ok rej show "status (fst (handleAgentPrediction (Inr body) db)) = 500"
    by (rule handleAgentPrediction_throws(1))
  from ok rej show "snd (handleAgentPrediction (Inr body) db) = db"
    by (rule handleAgentPrediction_throws(2))
qed

theorem prediction_validation_witness:
  "status (fst (handleAgentPrediction (Inr anonymous_prediction) db_empty)) = 400
   \<and> snd (handleAgentPrediction (Inr anonymous_prediction) db_empty) = db_empty
   \<and> status (fst (handleAgentPrediction (Inr overconfident_prediction) db_empty)) = 200
   \<and> ep_confidence_level
       (last (evaluation_predictions
          (snd (handleAgentPrediction (Inr overconfident_prediction) db_empty)))) = Some (3 / 2)
   \<and> status (fst (handleAgentPrediction (Inr dangling_prediction) db_empty)) = 500
   \<and> snd (handleAgentPrediction (Inr dangling_prediction) db_empty) = db_empty"
proof -
  from prediction_validation [of anonymous_prediction db_empty] predictions_required(3)
  have rejected: "status (fst (handleAgentPrediction (Inr anonymous_prediction) db_empty)) = 400
      \<and> snd (handleAgentPrediction (Inr anonymous_prediction) db_empty) = db_empty"
    by blast
  from prediction_validation [of overconfident_prediction db_empty]
    predictions_required(1) predictions_constraints(1)
  have "status (fst (handleAgentPrediction (Inr overconfident_prediction) db_empty)) = 200
      \<and> ep_confidence_level
          (last (evaluation_predictions
             (snd (handleAgentPrediction (Inr overconfident_prediction) db_empty))))
         = sql_value (confidence_level overconfident_prediction)"
    by blast
  then have stored: "status (fst (handleAgentPrediction (Inr overconfident_prediction) db_empty)) = 200
      \<and> ep_confidence_level
          (last (evaluation_predictions
             (snd (handleAgentPrediction (Inr overconfident_prediction) db_empty))))
         = Some (3 / 2)"
    by (simp add: predictions_required(4))
  from prediction_validation [of dangling_prediction db_empty]
    predictions_required(2) predictions_constraints(2)
  have thrown: "status (fst (handleAgentPrediction (Inr dangling_prediction) db_empty)) = 500
      \<and> snd (handleAgentPrediction (Inr dangling_prediction) db_empty) = db_empty"
    by blast
  from rejected stored thrown show ?thesis by blast
qed

theorem confidence_level_counterexample:
  "confidence_level overconfident_prediction = Val (3 / 2)
   \<and> status (fst (handleAgentPrediction (Inr overconfident_prediction) db_empty)) = 200
   \<and> map ep_confidence_level
       (evaluation_predictions (snd (handleAgentPrediction (Inr overconfident_prediction) db_empty)))
      = [Some (3 / 2)]"
  by (simp add: handleAgentPrediction_stores(1,2) predictions_required predictions_constraints)
     (simp add: db_empty_def prediction_row_def predictions_required)

end
